theory Spec2Isabelle
  imports Main
begin

section \<open>Values shared by the package\<close>

text \<open>
  Go strings and byte slices are sequences of 8-bit bytes; \<^typ>\<open>char\<close> is an 8-bit
  byte, so both are \<^typ>\<open>string\<close>.
\<close>

type_synonym bytes = string

text \<open>
  A Go \<^verbatim>\<open>error\<close> is an interface value: \<^verbatim>\<open>nil\<close> is \<^term>\<open>None\<close>, and a non-nil
  error is one constructor per dynamic type (or per package-level variable made by
  \<^verbatim>\<open>errors.New\<close>). \<^verbatim>\<open>ErrInvalidBlockType\<close> held by value and held through a pointer
  are different dynamic types, hence two constructors. \<open>ErrorfParsingResponse\<close> is
  the error built by \<^verbatim>\<open>fmt.Errorf("error when parsing response with code %d: %w", ...)\<close>: it
  keeps the status code and wraps the cause. \<open>ExternalError\<close> is an error made by a
  library (net/http, io), named by its message; it wraps nothing.
\<close>

datatype error =
    ErrNoBoardsInBoardsAndBlocks
  | ErrNoBlocksInBoardsAndBlocks
  | ErrNoTeamInBoardsAndBlocks
  | ErrBoardIDsAndPatchesMissmatchInBoardsAndBlocks
  | ErrBlockIDsAndPatchesMissmatchInBoardsAndBlocks
  | BlockDoesntBelongToAnyBoardErr string
  | ErrInvalidBlockType string
  | PtrErrInvalidBlockType string
  | RequestReaderError bytes
  | ErrorfParsingResponse int error
  | ExternalError string

text \<open>A call either returns or panics (a nil pointer dereference, a call on a nil interface).\<close>

datatype 'a outcome = Panic | Return 'a

section \<open>boards\_and\_blocks.go\<close>

text \<open>
  Modelled from the spec: the declarations of \<^verbatim>\<open>Board\<close> and \<^verbatim>\<open>Block\<close> are not among the
  sources. The validator reads \<^verbatim>\<open>board.ID\<close>, \<^verbatim>\<open>block.ID\<close> and \<^verbatim>\<open>block.BoardID\<close> only,
  all opaque strings.
\<close>

record Board =
  ID :: string

record Block =
  ID :: string
  BoardID :: string

text \<open>
  \<^verbatim>\<open>Boards []*Board\<close> and \<^verbatim>\<open>Blocks []*Block\<close> are slices of pointers: an element is
  \<^term>\<open>None\<close> for a nil pointer and \<open>Some\<close> of the struct it points to otherwise. A nil
  slice and an empty one both have length 0 and are the empty list.
\<close>

record BoardsAndBlocks =
  Boards :: "Board option list"
  Blocks :: "Block option list"

text \<open>
  The first loop of \<^verbatim>\<open>IsValid\<close>: \<^verbatim>\<open>boardsMap[board.ID] = true\<close> for every board, in
  order. Reading \<^verbatim>\<open>board.ID\<close> through a nil pointer panics.
\<close>

fun IsValid_boardsMap :: "Board option list \<Rightarrow> (string \<rightharpoonup> bool) \<Rightarrow> (string \<rightharpoonup> bool) outcome" where
  "IsValid_boardsMap [] boardsMap = Return boardsMap"
| "IsValid_boardsMap (None # rest) boardsMap = Panic"
| "IsValid_boardsMap (Some board # rest) boardsMap =
     IsValid_boardsMap rest (boardsMap(Board.ID board \<mapsto> True))"

text \<open>
  The second loop: the first block whose \<^verbatim>\<open>BoardID\<close> is not a key of the map ends the
  call with \<^verbatim>\<open>BlockDoesntBelongToAnyBoardErr{block.ID}\<close>.
\<close>

fun IsValid_blocks :: "(string \<rightharpoonup> bool) \<Rightarrow> Block option list \<Rightarrow> error option outcome" where
  "IsValid_blocks boardsMap [] = Return None"
| "IsValid_blocks boardsMap (None # rest) = Panic"
| "IsValid_blocks boardsMap (Some block # rest) =
     (case boardsMap (BoardID block) of
        None \<Rightarrow> Return (Some (BlockDoesntBelongToAnyBoardErr (Block.ID block)))
      | Some ok \<Rightarrow> IsValid_blocks boardsMap rest)"

text \<open>
  \<^verbatim>\<open>func (bab *BoardsAndBlocks) IsValid() error\<close>. The receiver is a pointer, so the
  model returns the batch as the call leaves it beside the result.
\<close>

definition BoardsAndBlocks_IsValid :: "BoardsAndBlocks \<Rightarrow> error option outcome \<times> BoardsAndBlocks" where
  "BoardsAndBlocks_IsValid bab =
     (if length (Boards bab) = 0 then (Return (Some ErrNoBoardsInBoardsAndBlocks), bab)
      else if length (Blocks bab) = 0 then (Return (Some ErrNoBlocksInBoardsAndBlocks), bab)
      else (case IsValid_boardsMap (Boards bab) Map.empty of
              Panic \<Rightarrow> (Panic, bab)
            | Return boardsMap \<Rightarrow> (IsValid_blocks boardsMap (Blocks bab), bab)))"

text \<open>
  \<^verbatim>\<open>PatchBoardsAndBlocks\<close>. The declarations of \<^verbatim>\<open>BoardPatch\<close> and \<^verbatim>\<open>BlockPatch\<close> are not
  among the sources and the validator only counts them, so they are type parameters.
\<close>

record ('boardPatch, 'blockPatch) PatchBoardsAndBlocks =
  BoardIDs :: "string list"
  BoardPatches :: "'boardPatch option list"
  BlockIDs :: "string list"
  BlockPatches :: "'blockPatch option list"

definition PatchBoardsAndBlocks_IsValid ::
  "('a, 'b) PatchBoardsAndBlocks \<Rightarrow> error option \<times> ('a, 'b) PatchBoardsAndBlocks" where
  "PatchBoardsAndBlocks_IsValid dbab =
     (if length (BoardIDs dbab) = 0 then (Some ErrNoBoardsInBoardsAndBlocks, dbab)
      else if length (BoardIDs dbab) \<noteq> length (BoardPatches dbab)
        then (Some ErrBoardIDsAndPatchesMissmatchInBoardsAndBlocks, dbab)
      else if length (BlockIDs dbab) \<noteq> length (BlockPatches dbab)
        then (Some ErrBlockIDsAndPatchesMissmatchInBoardsAndBlocks, dbab)
      else (None, dbab))"

text \<open>
  What the claims say in the spec's words: the IDs of the boards of a batch, and the
  first block, in list order, that refers to none of them.
\<close>

fun non_nil :: "'a option list \<Rightarrow> 'a list" where
  "non_nil [] = []"
| "non_nil (None # ps) = non_nil ps"
| "non_nil (Some x # ps) = x # non_nil ps"

definition board_ids :: "BoardsAndBlocks \<Rightarrow> string set" where
  "board_ids bab = set (map Board.ID (non_nil (Boards bab)))"

definition first_orphan :: "BoardsAndBlocks \<Rightarrow> Block option" where
  "first_orphan bab =
     find (\<lambda>block. BoardID block \<notin> board_ids bab) (non_nil (Blocks bab))"

text \<open>
  The spec's scenario: boards \<open>A\<close> and \<open>B\<close>, blocks of \<open>A\<close>, \<open>A\<close> and \<open>C\<close>; the third
  block is the first orphan and its ID is reported.
\<close>

definition scenario_batch :: BoardsAndBlocks where
  "scenario_batch =
     \<lparr>Boards = [Some \<lparr>Board.ID = ''A''\<rparr>, Some \<lparr>Board.ID = ''B''\<rparr>],
      Blocks = [Some \<lparr>Block.ID = ''c1'', BoardID = ''A''\<rparr>,
                Some \<lparr>Block.ID = ''c2'', BoardID = ''A''\<rparr>,
                Some \<lparr>Block.ID = ''c3'', BoardID = ''C''\<rparr>]\<rparr>"

subsection \<open>Concrete batches\<close>

text \<open>The patch types are not among the sources; a patch is a unit value here.\<close>

definition two_boards_one_patch :: "(unit, unit) PatchBoardsAndBlocks" where
  "two_boards_one_patch =
     \<lparr>BoardIDs = [''b1'', ''b2''], BoardPatches = [Some ()], BlockIDs = [], BlockPatches = []\<rparr>"

definition boards_only_patch :: "(unit, unit) PatchBoardsAndBlocks" where
  "boards_only_patch =
     \<lparr>BoardIDs = [''b1''], BoardPatches = [Some ()], BlockIDs = [], BlockPatches = []\<rparr>"

definition boards_only_batch :: BoardsAndBlocks where
  "boards_only_batch = \<lparr>Boards = [Some \<lparr>Board.ID = ''b1''\<rparr>], Blocks = []\<rparr>"

section \<open>blocktype.go\<close>

type_synonym BlockType = string

definition TypeUnknown :: BlockType where "TypeUnknown = ''unknown''"
definition TypeBoard :: BlockType where "TypeBoard = ''board''"
definition TypeCard :: BlockType where "TypeCard = ''card''"
definition TypeView :: BlockType where "TypeView = ''view''"
definition TypeText :: BlockType where "TypeText = ''text''"
definition TypeCheckbox :: BlockType where "TypeCheckbox = ''checkbox''"
definition TypeComment :: BlockType where "TypeComment = ''comment''"
definition TypeImage :: BlockType where "TypeImage = ''image''"
definition TypeAttachment :: BlockType where "TypeAttachment = ''attachment''"
definition TypeDivider :: BlockType where "TypeDivider = ''divider''"

text \<open>
  \<^verbatim>\<open>BlockTypeFromString\<close>. \<^verbatim>\<open>strings.ToLower\<close> belongs to Go's library (it maps Unicode
  code points, not only ASCII letters) and is a parameter. The \<^verbatim>\<open>switch\<close> compares the
  lowered string with each case in order; the error carries the string as given.
\<close>

definition BlockTypeFromString :: "(string \<Rightarrow> string) \<Rightarrow> string \<Rightarrow> BlockType \<times> error option" where
  "BlockTypeFromString ToLower s =
     (let l = ToLower s in
      if l = ''board'' then (TypeBoard, None)
      else if l = ''card'' then (TypeCard, None)
      else if l = ''view'' then (TypeView, None)
      else if l = ''text'' then (TypeText, None)
      else if l = ''checkbox'' then (TypeCheckbox, None)
      else if l = ''comment'' then (TypeComment, None)
      else if l = ''image'' then (TypeImage, None)
      else if l = ''attachment'' then (TypeAttachment, None)
      else if l = ''divider'' then (TypeDivider, None)
      else (TypeUnknown, Some (ErrInvalidBlockType s)))"

text \<open>
  \<^verbatim>\<open>errors.As(err, &eibt)\<close> with \<^verbatim>\<open>eibt\<close> of type \<^verbatim>\<open>*ErrInvalidBlockType\<close>: it walks the
  chain of wrapped errors and succeeds at the first one whose dynamic type is the
  pointer type. None of the package's error types has an \<^verbatim>\<open>As\<close> method; only the error
  made by \<^verbatim>\<open>fmt.Errorf\<close> with \<^verbatim>\<open>%w\<close> unwraps.
\<close>

fun errors_As_PtrErrInvalidBlockType :: "error \<Rightarrow> bool" where
  "errors_As_PtrErrInvalidBlockType (PtrErrInvalidBlockType t) = True"
| "errors_As_PtrErrInvalidBlockType (ErrorfParsingResponse code cause) =
     errors_As_PtrErrInvalidBlockType cause"
| "errors_As_PtrErrInvalidBlockType e = False"

definition IsErrInvalidBlockType :: "error option \<Rightarrow> bool" where
  "IsErrInvalidBlockType err =
     (case err of None \<Rightarrow> False | Some e \<Rightarrow> errors_As_PtrErrInvalidBlockType e)"

text \<open>
  \<^verbatim>\<open>strings.ToLower\<close> on a string of ASCII bytes: each of \<open>A\<close>..\<open>Z\<close> moves up by 32,
  every other byte stays. Used to evaluate the parser on concrete ASCII strings.
\<close>

definition ToLower_ASCII :: "string \<Rightarrow> string" where
  "ToLower_ASCII s =
     map (\<lambda>c. if (65::nat) \<le> of_char c \<and> of_char c \<le> (90::nat)
               then char_of (of_char c + (32::nat)) else c) s"

text \<open>The nine names the parser recognises.\<close>

definition recognized :: "string set" where
  "recognized = {''board'', ''card'', ''view'', ''text'', ''checkbox'', ''comment'',
                 ''image'', ''attachment'', ''divider''}"

section \<open>client.go\<close>

text \<open>
  \<^verbatim>\<open>http.Header\<close> is a \<^verbatim>\<open>map[string][]string\<close>. \<^verbatim>\<open>Set\<close> stores the one-element slice
  under the canonical form of the key; \<^verbatim>\<open>textproto.CanonicalMIMEHeaderKey\<close> belongs to
  Go's library and is a parameter.
\<close>

type_synonym http_Header = "string \<rightharpoonup> string list"

definition Header_Set :: "(string \<Rightarrow> string) \<Rightarrow> string \<Rightarrow> string \<Rightarrow> http_Header \<Rightarrow> http_Header" where
  "Header_Set canon key v h = h(canon key \<mapsto> [v])"

text \<open>
  A response body is an \<^verbatim>\<open>io.ReadCloser\<close>: the bytes it still delivers, what ends
  them (\<^term>\<open>None\<close> for \<^verbatim>\<open>io.EOF\<close>, or the error of a failed read), and whether
  \<^verbatim>\<open>Close\<close> has been called.
\<close>

record ReadCloser =
  pending :: bytes
  failure :: "error option"
  closed :: bool

text \<open>\<^verbatim>\<open>io.ReadAll\<close> consumes the stream and returns what it delivered and the error that ended it.\<close>

definition io_ReadAll :: "ReadCloser \<Rightarrow> (bytes \<times> error option) \<times> ReadCloser" where
  "io_ReadAll body = ((pending body, failure body), body\<lparr>pending := []\<rparr>)"

text \<open>
  The fields of \<^verbatim>\<open>http.Request\<close> and \<^verbatim>\<open>http.Response\<close> the client touches. A request made
  by \<^verbatim>\<open>http.NewRequest\<close> has an allocated header map. The header map and the body of a
  response may be nil.
\<close>

record http_Request =
  Method :: string
  URL :: string
  Header :: http_Header
  Body :: bytes

record http_Response =
  StatusCode :: int
  Header :: "http_Header option"
  Body :: "ReadCloser option"

record Response =
  StatusCode :: int
  Error :: "error option"
  Header :: "http_Header option"

text \<open>\<^verbatim>\<open>BuildResponse\<close> reads through its argument, so a nil response panics.\<close>

definition BuildResponse :: "http_Response option \<Rightarrow> Response outcome" where
  "BuildResponse r =
     (case r of
        None \<Rightarrow> Panic
      | Some r' \<Rightarrow> Return \<lparr>Response.StatusCode = http_Response.StatusCode r', Error = None,
                           Header = http_Response.Header r'\<rparr>)"

text \<open>\<^verbatim>\<open>make(http.Header)\<close> is an allocated, empty map: \<^term>\<open>Some Map.empty\<close>.\<close>

definition BuildErrorResponse :: "http_Response option \<Rightarrow> error option \<Rightarrow> Response" where
  "BuildErrorResponse r err =
     (let statusCode = (0::int);
          header = Some Map.empty;
          statusCode = (case r of None \<Rightarrow> statusCode | Some r' \<Rightarrow> http_Response.StatusCode r');
          header = (case r of None \<Rightarrow> header | Some r' \<Rightarrow> http_Response.Header r')
      in \<lparr>Response.StatusCode = statusCode, Error = err, Header = header\<rparr>)"

text \<open>
  \<^verbatim>\<open>closeBody\<close>: with a body present, \<^verbatim>\<open>io.Copy(io.Discard, r.Body)\<close> consumes what is left
  and \<^verbatim>\<open>Close\<close> releases the connection. The response is shared through its pointer, so
  the model returns it as the call leaves it.
\<close>

definition closeBody :: "http_Response \<Rightarrow> http_Response" where
  "closeBody r =
     (case http_Response.Body r of
        None \<Rightarrow> r
      | Some body \<Rightarrow> r\<lparr>http_Response.Body := Some (body\<lparr>pending := [], closed := True\<rparr>)\<rparr>)"

text \<open>
  The client. \<^verbatim>\<open>HTTPClient\<close> is used through \<^verbatim>\<open>Do\<close> only, so the field is that function:
  from the request to the response (nil or not) and the error (nil or not).
  \<^verbatim>\<open>HTTPHeader\<close> is a \<^verbatim>\<open>map[string]string\<close>, nil or not; Go ranges over a map in an order
  of its choosing, so the field lists the entries in the order of that range.
\<close>

record Client =
  URL :: string
  APIURL :: string
  HTTPClient :: "http_Request \<Rightarrow> http_Response option \<times> error option"
  HTTPHeader :: "(string \<times> string) list option"
  Token :: string

definition APIURLSuffix :: string where
  "APIURLSuffix = ''/api/v2''"

definition TrimRight_slash :: "string \<Rightarrow> string" where
  "TrimRight_slash url = rev (dropWhile (\<lambda>c. c = CHR ''/'') (rev url))"

text \<open>\<^verbatim>\<open>NewClient\<close>, with the \<^verbatim>\<open>Do\<close> of the \<^verbatim>\<open>http.Client\<close> it allocates as a parameter.\<close>

definition NewClient ::
  "(http_Request \<Rightarrow> http_Response option \<times> error option) \<Rightarrow> string \<Rightarrow> string \<Rightarrow> Client" where
  "NewClient do url sessionToken =
     (let url = TrimRight_slash url;
          headers = [(''X-Requested-With'', ''XMLHttpRequest'')]
      in \<lparr>Client.URL = url, APIURL = url @ APIURLSuffix, HTTPClient = do,
          HTTPHeader = Some headers, Token = sessionToken\<rparr>)"

text \<open>The functions of Go's net/http the transport calls besides \<^verbatim>\<open>Do\<close>.\<close>

record net_http =
  NewRequest :: "string \<Rightarrow> string \<Rightarrow> bytes \<Rightarrow> error + http_Request"
  CanonicalMIMEHeaderKey :: "string \<Rightarrow> string"

text \<open>
  A \<^verbatim>\<open>requestOption\<close> changes the request it is given; an option is taken to return
  and to leave the header map allocated, as those of this package do (they add a
  \<^verbatim>\<open>Content-Type\<close>).
\<close>

type_synonym requestOption = "http_Request \<Rightarrow> http_Request"

text \<open>\<^verbatim>\<open>rq.Header.Set(k, v)\<close>.\<close>

definition Request_Header_Set :: "net_http \<Rightarrow> string \<Rightarrow> string \<Rightarrow> http_Request \<Rightarrow> http_Request" where
  "Request_Header_Set lib k v rq =
     rq\<lparr>http_Request.Header := Header_Set (CanonicalMIMEHeaderKey lib) k v (http_Request.Header rq)\<rparr>"

text \<open>
  The request as \<^verbatim>\<open>doAPIRequestReader\<close> hands it to \<^verbatim>\<open>Do\<close>, in the three steps of the
  source: the options run first, then every entry of \<^verbatim>\<open>HTTPHeader\<close> is set, then
  \<^verbatim>\<open>Authorization\<close> when the token is not empty.
\<close>

definition apply_opts :: "requestOption list \<Rightarrow> http_Request \<Rightarrow> http_Request" where
  "apply_opts opts rq = fold (\<lambda>opt r. opt r) opts rq"

definition set_HTTPHeader :: "net_http \<Rightarrow> Client \<Rightarrow> http_Request \<Rightarrow> http_Request" where
  "set_HTTPHeader lib c rq =
     (case HTTPHeader c of
        None \<Rightarrow> rq
      | Some entries \<Rightarrow>
          if length entries > 0
          then fold (\<lambda>(k, v) r. Request_Header_Set lib k v r) entries rq
          else rq)"

definition set_Authorization :: "net_http \<Rightarrow> Client \<Rightarrow> http_Request \<Rightarrow> http_Request" where
  "set_Authorization lib c rq =
     (if Token c \<noteq> '''' then Request_Header_Set lib ''Authorization'' (''Bearer '' @ Token c) rq
      else rq)"

text \<open>
  What \<^verbatim>\<open>doAPIRequestReader\<close> does with the answer of \<^verbatim>\<open>Do\<close>. In the branch of a status
  of 300 or more, \<^verbatim>\<open>io.ReadAll\<close> on a nil body is a call on a nil interface and panics;
  the deferred \<^verbatim>\<open>closeBody\<close> runs on both returns of that branch, after the result is
  fixed, and the returned pointer shows the response as it leaves it.
\<close>

definition classify ::
  "http_Response option \<times> error option \<Rightarrow> (http_Response option \<times> error option) outcome" where
  "classify answer =
     (case answer of (rp, err) \<Rightarrow>
        if err \<noteq> None \<or> rp = None then Return (None, err)
        else (case rp of
           None \<Rightarrow> Return (None, err)
         | Some r \<Rightarrow>
             if http_Response.StatusCode r = 304 then Return (Some r, None)
             else if http_Response.StatusCode r \<ge> 300 then
               (case http_Response.Body r of
                  None \<Rightarrow> Panic
                | Some body \<Rightarrow>
                    (case io_ReadAll body of ((b, rerr), body') \<Rightarrow>
                       (let r' = closeBody (r\<lparr>http_Response.Body := Some body'\<rparr>) in
                        case rerr of
                          Some e \<Rightarrow>
                            Return (Some r',
                                    Some (ErrorfParsingResponse (http_Response.StatusCode r) e))
                        | None \<Rightarrow> Return (Some r', Some (RequestReaderError b)))))
             else Return (Some r, None)))"

text \<open>
  \<^verbatim>\<open>doAPIRequestReader\<close>. The result is what the call returns, or that it panics, and the
  requests it handed to \<^verbatim>\<open>Do\<close>: none when \<^verbatim>\<open>http.NewRequest\<close> fails, one otherwise. The
  etag argument is ignored, as in the source.
\<close>

definition doAPIRequestReader ::
  "net_http \<Rightarrow> Client \<Rightarrow> string \<Rightarrow> string \<Rightarrow> bytes \<Rightarrow> string \<Rightarrow> requestOption list
     \<Rightarrow> (http_Response option \<times> error option) outcome \<times> http_Request list" where
  "doAPIRequestReader lib c method url data etag opts =
     (case NewRequest lib method url data of
        Inl err \<Rightarrow> (Return (None, Some err), [])
      | Inr rq \<Rightarrow>
          (let rq = apply_opts opts rq;
               rq = set_HTTPHeader lib c rq;
               rq = set_Authorization lib c rq
           in (classify (HTTPClient c rq), [rq])))"

definition DoAPIRequest ::
  "net_http \<Rightarrow> Client \<Rightarrow> string \<Rightarrow> string \<Rightarrow> string \<Rightarrow> string
     \<Rightarrow> (http_Response option \<times> error option) outcome \<times> http_Request list" where
  "DoAPIRequest lib c method url data etag = doAPIRequestReader lib c method url data etag []"

text \<open>The header values under a key of the requests a call handed to \<^verbatim>\<open>Do\<close>.\<close>

definition sent_header ::
  "(http_Response option \<times> error option) outcome \<times> http_Request list \<Rightarrow> string
     \<Rightarrow> string list option list" where
  "sent_header result key = map (\<lambda>rq. http_Request.Header rq key) (snd result)"

subsection \<open>Concrete collaborators\<close>

text \<open>
  A \<^verbatim>\<open>NewRequest\<close> that accepts every method and URL, with keys that are already in
  canonical form left as they are (\<open>Authorization\<close>, \<open>X-Requested-With\<close> and
  \<open>Content-Type\<close> are).
\<close>

definition plain_http :: net_http where
  "plain_http =
     \<lparr>NewRequest = (\<lambda>method url data.
         Inr \<lparr>Method = method, http_Request.URL = url, Header = Map.empty, Body = data\<rparr>),
      CanonicalMIMEHeaderKey = (\<lambda>key. key)\<rparr>"

text \<open>A backend that answers every request with the given status and body.\<close>

definition backend :: "int \<Rightarrow> ReadCloser \<Rightarrow> http_Request \<Rightarrow> http_Response option \<times> error option" where
  "backend status body rq =
     (Some \<lparr>http_Response.StatusCode = status, Header = Some Map.empty, Body = Some body\<rparr>, None)"

definition whole_body :: "bytes \<Rightarrow> ReadCloser" where
  "whole_body b = \<lparr>pending = b, failure = None, closed = False\<rparr>"

text \<open>A body whose connection drops after the given bytes.\<close>

definition broken_body :: "bytes \<Rightarrow> ReadCloser" where
  "broken_body b = \<lparr>pending = b, failure = Some (ExternalError ''unexpected EOF''), closed = False\<rparr>"

text \<open>A connection that is refused: no response, and the cause as the error.\<close>

definition refusing :: "http_Request \<Rightarrow> http_Response option \<times> error option" where
  "refusing rq = (None, Some (ExternalError ''connection refused''))"

text \<open>A request option of a caller that sets one header.\<close>

definition with_header :: "string \<Rightarrow> string \<Rightarrow> requestOption" where
  "with_header k v rq = Request_Header_Set plain_http k v rq"

text \<open>What a call returned, taken apart: the error, the status code and the body.\<close>

definition returned_error ::
  "(http_Response option \<times> error option) outcome \<times> http_Request list \<Rightarrow> error option outcome" where
  "returned_error result =
     (case fst result of Panic \<Rightarrow> Panic | Return (rp, err) \<Rightarrow> Return err)"

definition returned_status ::
  "(http_Response option \<times> error option) outcome \<times> http_Request list \<Rightarrow> int option outcome" where
  "returned_status result =
     (case fst result of
        Panic \<Rightarrow> Panic
      | Return (rp, err) \<Rightarrow> Return (map_option http_Response.StatusCode rp))"

definition returned_body ::
  "(http_Response option \<times> error option) outcome \<times> http_Request list \<Rightarrow> ReadCloser option outcome" where
  "returned_body result =
     (case fst result of
        Panic \<Rightarrow> Panic
      | Return (rp, err) \<Rightarrow> Return (case rp of None \<Rightarrow> None | Some r \<Rightarrow> http_Response.Body r))"

text \<open>
  A call whose caller tries to override the defaults: a client made by \<^verbatim>\<open>NewClient\<close>
  with the token \<open>tok\<close>, and request options that set \<^verbatim>\<open>Authorization\<close>,
  \<^verbatim>\<open>X-Requested-With\<close> and \<^verbatim>\<open>Content-Type\<close>.
\<close>

definition overriding_client :: Client where
  "overriding_client = NewClient (backend 200 (whole_body ''[]'')) ''http://host/'' ''tok''"

definition overriding_opts :: "requestOption list" where
  "overriding_opts =
     [with_header ''Authorization'' ''Basic abc'',
      with_header ''X-Requested-With'' ''mine'',
      with_header ''Content-Type'' ''application/json'']"

definition overriding_call ::
  "(http_Response option \<times> error option) outcome \<times> http_Request list" where
  "overriding_call =
     doAPIRequestReader plain_http overriding_client ''POST'' ''http://host/api/v2/boards''
       ''{}'' '''' overriding_opts"

text \<open>
  Calls on simulated backends: status 500 with the body \<open>boom\<close>; status 500 with a
  body that breaks off after \<open>bo\<close>; status 304; and a refused connection.
\<close>

definition call_on ::
  "(http_Request \<Rightarrow> http_Response option \<times> error option)
     \<Rightarrow> (http_Response option \<times> error option) outcome \<times> http_Request list" where
  "call_on do =
     DoAPIRequest plain_http (NewClient do ''http://host'' ''tok'') ''GET''
       ''http://host/api/v2/boards'' '''' ''''"

definition boom_call :: "(http_Response option \<times> error option) outcome \<times> http_Request list" where
  "boom_call = call_on (backend 500 (whole_body ''boom''))"

definition broken_call :: "(http_Response option \<times> error option) outcome \<times> http_Request list" where
  "broken_call = call_on (backend 500 (broken_body ''bo''))"

definition not_modified_call ::
  "(http_Response option \<times> error option) outcome \<times> http_Request list" where
  "not_modified_call = call_on (backend 304 (whole_body ''''))"

definition refused_call :: "(http_Response option \<times> error option) outcome \<times> http_Request list" where
  "refused_call = call_on refusing"

text \<open>The one request each of these calls hands to \<^verbatim>\<open>Do\<close>.\<close>

definition call_on_request :: http_Request where
  "call_on_request =
     \<lparr>Method = ''GET'', http_Request.URL = ''http://host/api/v2/boards'',
      Header = [''X-Requested-With'' \<mapsto> [''XMLHttpRequest''],
                ''Authorization'' \<mapsto> [''Bearer tok'']],
      Body = ''''\<rparr>"

text \<open>
  The entry of the blocks list, in list order, at which the second loop stops: the first
  that is a nil pointer or a block that refers to no board of the batch.
\<close>

definition first_stop :: "BoardsAndBlocks \<Rightarrow> Block option option" where
  "first_stop bab =
     find (\<lambda>p. case p of None \<Rightarrow> True | Some block \<Rightarrow> BoardID block \<notin> board_ids bab)
       (Blocks bab)"

text \<open>
  A batch with one board and a nil pointer in the blocks list, as
  \<^verbatim>\<open>BoardsAndBlocksFromJSON\<close> makes it from \<^verbatim>\<open>{"boards":[{"id":"A"}],"blocks":[null]}\<close>.
\<close>

definition nil_block_batch :: BoardsAndBlocks where
  "nil_block_batch = \<lparr>Boards = [Some \<lparr>Board.ID = ''A''\<rparr>], Blocks = [None]\<rparr>"


section \<open>Properties of the validators\<close>

lemma set_non_nil: "set (non_nil ps) = {x. Some x \<in> set ps}"
  by (induction ps rule: non_nil.induct) auto

lemma IsValid_boardsMap_nil: "None \<in> set bs \<Longrightarrow> IsValid_boardsMap bs m = Panic"
proof (induction bs arbitrary: m)
  case Nil
  then show ?case by simp
next
  case (Cons x rest)
  show ?case
  proof (cases x)
    case None
    then show ?thesis by simp
  next
    case (Some board)
    with Cons.prems have "None \<in> set rest" by simp
    from Cons.IH [OF this] Some show ?thesis by simp
  qed
qed

lemma IsValid_boardsMap_dom:
  "None \<notin> set bs \<Longrightarrow>
   \<exists>m'. IsValid_boardsMap bs m = Return m' \<and> dom m' = dom m \<union> set (map Board.ID (non_nil bs))"
proof (induction bs arbitrary: m)
  case Nil
  then show ?case by simp
next
  case (Cons x rest)
  then obtain board where x: "x = Some board" by (cases x) auto
  from Cons.prems have "None \<notin> set rest" by simp
  from Cons.IH [OF this, of "m(Board.ID board \<mapsto> True)"] obtain m' where
    m': "IsValid_boardsMap rest (m(Board.ID board \<mapsto> True)) = Return m'"
    and d: "dom m' = dom (m(Board.ID board \<mapsto> True)) \<union> set (map Board.ID (non_nil rest))"
    by blast
  have "dom m' = dom m \<union> set (map Board.ID (non_nil (x # rest)))"
    using d x by auto
  with m' x show ?case by simp
qed

lemma IsValid_blocks_stop:
  "IsValid_blocks m bs =
     (case find (\<lambda>p. case p of None \<Rightarrow> True | Some block \<Rightarrow> BoardID block \<notin> dom m) bs of
        None \<Rightarrow> Return None
      | Some None \<Rightarrow> Panic
      | Some (Some block) \<Rightarrow> Return (Some (BlockDoesntBelongToAnyBoardErr (Block.ID block))))"
proof (induction bs)
  case Nil
  then show ?case by simp
next
  case (Cons x rest)
  show ?case
  proof (cases x)
    case None
    then show ?thesis by simp
  next
    case (Some block)
    show ?thesis
    proof (cases "m (BoardID block)")
      case None
      then have "BoardID block \<notin> dom m" by (simp add: domIff)
      with None Some show ?thesis by simp
    next
      case (Some ok)
      then have "BoardID block \<in> dom m" by (simp add: domIff)
      with Some \<open>x = Some block\<close> Cons.IH show ?thesis by simp
    qed
  qed
qed

lemma BoardsAndBlocks_IsValid_cases:
  "fst (BoardsAndBlocks_IsValid bab) =
     (if Boards bab = [] then Return (Some ErrNoBoardsInBoardsAndBlocks)
      else if Blocks bab = [] then Return (Some ErrNoBlocksInBoardsAndBlocks)
      else if None \<in> set (Boards bab) then Panic
      else (case first_stop bab of
              None \<Rightarrow> Return None
            | Some None \<Rightarrow> Panic
            | Some (Some block) \<Rightarrow>
                Return (Some (BlockDoesntBelongToAnyBoardErr (Block.ID block)))))"
proof (cases "None \<in> set (Boards bab)")
  case True
  from IsValid_boardsMap_nil [OF True, of Map.empty] True show ?thesis
    by (simp add: BoardsAndBlocks_IsValid_def)
next
  case False
  from IsValid_boardsMap_dom [OF False, of Map.empty] obtain m' where
    m': "IsValid_boardsMap (Boards bab) Map.empty = Return m'"
    and d: "dom m' = board_ids bab"
    by (auto simp: board_ids_def)
  have "IsValid_blocks m' (Blocks bab) =
      (case first_stop bab of
         None \<Rightarrow> Return None
       | Some None \<Rightarrow> Panic
       | Some (Some block) \<Rightarrow>
           Return (Some (BlockDoesntBelongToAnyBoardErr (Block.ID block))))"
    using IsValid_blocks_stop [of m' "Blocks bab"] unfolding d first_stop_def .
  with m' False show ?thesis
    by (simp add: BoardsAndBlocks_IsValid_def)
qed

lemma first_stop_None_iff:
  "first_stop bab = None \<longleftrightarrow>
     None \<notin> set (Blocks bab) \<and>
     (\<forall>block. Some block \<in> set (Blocks bab) \<longrightarrow> BoardID block \<in> board_ids bab)"
  by (auto simp: first_stop_def find_None_iff split: option.splits)

lemma first_stop_no_nil:
  "None \<notin> set (Blocks bab) \<Longrightarrow> first_stop bab = map_option Some (first_orphan bab)"
proof -
  have "None \<notin> set bs \<Longrightarrow>
      find (\<lambda>p. case p of None \<Rightarrow> True | Some block \<Rightarrow> P block) bs =
        map_option Some (find P (non_nil bs))" for bs :: "Block option list" and P
    by (induction bs rule: non_nil.induct) auto
  then show "None \<notin> set (Blocks bab) \<Longrightarrow> first_stop bab = map_option Some (first_orphan bab)"
    by (simp add: first_stop_def first_orphan_def)
qed

lemma BoardsAndBlocks_IsValid_nil_element:
  "fst (BoardsAndBlocks_IsValid \<lparr>Boards = [None], Blocks = [Some block]\<rparr>) = Panic"
  "fst (BoardsAndBlocks_IsValid \<lparr>Boards = [Some \<lparr>Board.ID = BoardID block\<rparr>], Blocks = [None]\<rparr>) = Panic"
  by (simp_all add: BoardsAndBlocks_IsValid_def)

text \<open>
  C1, as the code has it. For every create batch, \<^verbatim>\<open>IsValid\<close> returns
  \<^verbatim>\<open>ErrNoBoardsInBoardsAndBlocks\<close> exactly when the boards list is empty, and otherwise
  \<^verbatim>\<open>ErrNoBlocksInBoardsAndBlocks\<close> exactly when the blocks list is empty. With both lists
  non-empty the boards are read first, so a nil board pointer makes the call panic;
  otherwise the blocks are read in list order up to the first that is nil or refers to
  no board of the batch: a nil one makes the call panic, an orphan one gives
  \<^verbatim>\<open>BlockDoesntBelongToAnyBoardErr\<close> carrying its own ID. The call returns nil exactly
  when both lists are non-empty, no pointer is nil and every block refers to a board.
\<close>

theorem BoardsAndBlocks_IsValid_precedence:
  "(fst (BoardsAndBlocks_IsValid bab) = Return (Some ErrNoBoardsInBoardsAndBlocks)
      \<longleftrightarrow> Boards bab = [])
 \<and> (fst (BoardsAndBlocks_IsValid bab) = Return (Some ErrNoBlocksInBoardsAndBlocks)
      \<longleftrightarrow> Boards bab \<noteq> [] \<and> Blocks bab = [])
 \<and> (\<forall>blockID. fst (BoardsAndBlocks_IsValid bab) =
        Return (Some (BlockDoesntBelongToAnyBoardErr blockID))
      \<longleftrightarrow> Boards bab \<noteq> [] \<and> Blocks bab \<noteq> [] \<and> None \<notin> set (Boards bab) \<and>
          (\<exists>block. first_stop bab = Some (Some block) \<and> Block.ID block = blockID))
 \<and> (fst (BoardsAndBlocks_IsValid bab) = Return None
      \<longleftrightarrow> Boards bab \<noteq> [] \<and> Blocks bab \<noteq> [] \<and>
          None \<notin> set (Boards bab) \<and> None \<notin> set (Blocks bab) \<and>
          (\<forall>block. Some block \<in> set (Blocks bab) \<longrightarrow> BoardID block \<in> board_ids bab))
 \<and> (fst (BoardsAndBlocks_IsValid bab) = Panic
      \<longleftrightarrow> Boards bab \<noteq> [] \<and> Blocks bab \<noteq> [] \<and>
          (None \<in> set (Boards bab) \<or> first_stop bab = Some None))"
proof -
  note r = BoardsAndBlocks_IsValid_cases [of bab]
  have 1: "fst (BoardsAndBlocks_IsValid bab) = Return (Some ErrNoBoardsInBoardsAndBlocks)
      \<longleftrightarrow> Boards bab = []"
    unfolding r by (simp split: option.split)
  have 2: "fst (BoardsAndBlocks_IsValid bab) = Return (Some ErrNoBlocksInBoardsAndBlocks)
      \<longleftrightarrow> Boards bab \<noteq> [] \<and> Blocks bab = []"
    unfolding r by (simp split: option.split)
  have 3: "fst (BoardsAndBlocks_IsValid bab) =
        Return (Some (BlockDoesntBelongToAnyBoardErr blockID))
      \<longleftrightarrow> Boards bab \<noteq> [] \<and> Blocks bab \<noteq> [] \<and> None \<notin> set (Boards bab) \<and>
          (\<exists>block. first_stop bab = Some (Some block) \<and> Block.ID block = blockID)"
    for blockID
    unfolding r by (simp split: option.split)
  have "fst (BoardsAndBlocks_IsValid bab) = Return None
      \<longleftrightarrow> Boards bab \<noteq> [] \<and> Blocks bab \<noteq> [] \<and> None \<notin> set (Boards bab) \<and>
          first_stop bab = None"
    unfolding r by (simp split: option.split)
  then have 4: "fst (BoardsAndBlocks_IsValid bab) = Return None
      \<longleftrightarrow> Boards bab \<noteq> [] \<and> Blocks bab \<noteq> [] \<and>
          None \<notin> set (Boards bab) \<and> None \<notin> set (Blocks bab) \<and>
          (\<forall>block. Some block \<in> set (Blocks bab) \<longrightarrow> BoardID block \<in> board_ids bab)"
    unfolding first_stop_None_iff by simp
  have 5: "fst (BoardsAndBlocks_IsValid bab) = Panic
      \<longleftrightarrow> Boards bab \<noteq> [] \<and> Blocks bab \<noteq> [] \<and>
          (None \<in> set (Boards bab) \<or> first_stop bab = Some None)"
    unfolding r by (simp split: option.split)
  from 1 2 3 4 5 show ?thesis by blast
qed

lemma scenario_batch_ids: "board_ids scenario_batch = {''A'', ''B''}"
  by (simp add: board_ids_def scenario_batch_def)

lemma scenario_batch_stop:
  "first_stop scenario_batch = Some (Some \<lparr>Block.ID = ''c3'', BoardID = ''C''\<rparr>)"
  unfolding first_stop_def scenario_batch_ids by (simp add: scenario_batch_def)

lemma nil_block_batch_stop: "first_stop nil_block_batch = Some None"
  by (simp add: first_stop_def nil_block_batch_def)

theorem BoardsAndBlocks_IsValid_precedence_witness:
  "fst (BoardsAndBlocks_IsValid scenario_batch) =
     Return (Some (BlockDoesntBelongToAnyBoardErr ''c3''))
 \<and> fst (BoardsAndBlocks_IsValid nil_block_batch) = Panic"
proof -
  have ne: "Boards scenario_batch \<noteq> []" "Blocks scenario_batch \<noteq> []"
    "None \<notin> set (Boards scenario_batch)"
    by (simp_all add: scenario_batch_def)
  from BoardsAndBlocks_IsValid_precedence [of scenario_batch]
  have "fst (BoardsAndBlocks_IsValid scenario_batch) =
        Return (Some (BlockDoesntBelongToAnyBoardErr ''c3''))
      \<longleftrightarrow> Boards scenario_batch \<noteq> [] \<and> Blocks scenario_batch \<noteq> [] \<and>
          None \<notin> set (Boards scenario_batch) \<and>
          (\<exists>block. first_stop scenario_batch = Some (Some block) \<and> Block.ID block = ''c3'')"
    by blast
  with ne scenario_batch_stop
  have a: "fst (BoardsAndBlocks_IsValid scenario_batch) =
     Return (Some (BlockDoesntBelongToAnyBoardErr ''c3''))"
    by simp
  have nn: "Boards nil_block_batch \<noteq> []" "Blocks nil_block_batch \<noteq> []"
    by (simp_all add: nil_block_batch_def)
  from BoardsAndBlocks_IsValid_precedence [of nil_block_batch]
  have "fst (BoardsAndBlocks_IsValid nil_block_batch) = Panic
      \<longleftrightarrow> Boards nil_block_batch \<noteq> [] \<and> Blocks nil_block_batch \<noteq> [] \<and>
          (None \<in> set (Boards nil_block_batch) \<or> first_stop nil_block_batch = Some None)"
    by blast
  with nn nil_block_batch_stop
  have b: "fst (BoardsAndBlocks_IsValid nil_block_batch) = Panic"
    by simp
  from a b show ?thesis by simp
qed

text \<open>
  The claim as the spec words it fails on a batch with a nil pointer: here the boards
  list is not empty, the blocks list is not empty and no block is an orphan, yet the
  call does not return nil; it panics on reading \<^verbatim>\<open>block.BoardID\<close> through the nil pointer.
\<close>

theorem nil_block_is_not_ok:
  "Boards nil_block_batch \<noteq> [] \<and> Blocks nil_block_batch \<noteq> []
 \<and> first_orphan nil_block_batch = None
 \<and> fst (BoardsAndBlocks_IsValid nil_block_batch) = Panic
 \<and> fst (BoardsAndBlocks_IsValid nil_block_batch) \<noteq> Return None"
  by (simp add: nil_block_batch_def first_orphan_def BoardsAndBlocks_IsValid_def)

text \<open>
  C2. For every patch batch, \<^verbatim>\<open>IsValid\<close> returns \<^verbatim>\<open>ErrNoBoardsInBoardsAndBlocks\<close> exactly
  when \<^verbatim>\<open>BoardIDs\<close> is empty; otherwise the board mismatch error exactly when the numbers
  of board IDs and board patches differ; otherwise the block mismatch error exactly when
  the numbers of block IDs and block patches differ; otherwise nil. Whether \<^verbatim>\<open>BlockIDs\<close>
  is empty plays no part.
\<close>

theorem PatchBoardsAndBlocks_IsValid_precedence:
  "(fst (PatchBoardsAndBlocks_IsValid dbab) = Some ErrNoBoardsInBoardsAndBlocks
      \<longleftrightarrow> BoardIDs dbab = [])
 \<and> (fst (PatchBoardsAndBlocks_IsValid dbab) = Some ErrBoardIDsAndPatchesMissmatchInBoardsAndBlocks
      \<longleftrightarrow> BoardIDs dbab \<noteq> [] \<and> length (BoardIDs dbab) \<noteq> length (BoardPatches dbab))
 \<and> (fst (PatchBoardsAndBlocks_IsValid dbab) = Some ErrBlockIDsAndPatchesMissmatchInBoardsAndBlocks
      \<longleftrightarrow> BoardIDs dbab \<noteq> [] \<and> length (BoardIDs dbab) = length (BoardPatches dbab)
          \<and> length (BlockIDs dbab) \<noteq> length (BlockPatches dbab))
 \<and> (fst (PatchBoardsAndBlocks_IsValid dbab) = None
      \<longleftrightarrow> BoardIDs dbab \<noteq> [] \<and> length (BoardIDs dbab) = length (BoardPatches dbab)
          \<and> length (BlockIDs dbab) = length (BlockPatches dbab))
 \<and> fst (PatchBoardsAndBlocks_IsValid (dbab\<lparr>BlockIDs := [], BlockPatches := []\<rparr>)) \<noteq>
      Some ErrBlockIDsAndPatchesMissmatchInBoardsAndBlocks"
  by (simp add: PatchBoardsAndBlocks_IsValid_def)

theorem PatchBoardsAndBlocks_IsValid_precedence_witness:
  "fst (PatchBoardsAndBlocks_IsValid two_boards_one_patch) =
     Some ErrBoardIDsAndPatchesMissmatchInBoardsAndBlocks
   \<and> BoardIDs two_boards_one_patch \<noteq> []
   \<and> length (BoardIDs two_boards_one_patch) \<noteq> length (BoardPatches two_boards_one_patch)"
  using PatchBoardsAndBlocks_IsValid_precedence [of two_boards_one_patch]
  by (simp add: two_boards_one_patch_def)

text \<open>
  C7. A patch batch with at least one board ID, as many board patches as board IDs, and
  neither block IDs nor block patches is valid; a create batch without blocks never is.
\<close>

theorem PatchBoardsAndBlocks_IsValid_boards_only:
  assumes "BoardIDs dbab \<noteq> []"
    and "length (BoardIDs dbab) = length (BoardPatches dbab)"
    and "BlockIDs dbab = []" and "BlockPatches dbab = []"
  shows "fst (PatchBoardsAndBlocks_IsValid dbab) = None
       \<and> (\<forall>bab. Blocks bab = [] \<longrightarrow> fst (BoardsAndBlocks_IsValid bab) \<noteq> Return None)"
proof -
  from assms(1,2) have "BoardPatches dbab \<noteq> []" by auto
  with assms show ?thesis
    by (simp add: PatchBoardsAndBlocks_IsValid_def BoardsAndBlocks_IsValid_def)
qed

theorem PatchBoardsAndBlocks_IsValid_boards_only_witness:
  "BoardIDs boards_only_patch \<noteq> []
   \<and> length (BoardIDs boards_only_patch) = length (BoardPatches boards_only_patch)
   \<and> BlockIDs boards_only_patch = [] \<and> BlockPatches boards_only_patch = []
   \<and> fst (PatchBoardsAndBlocks_IsValid boards_only_patch) = None
   \<and> Blocks boards_only_batch = []
   \<and> fst (BoardsAndBlocks_IsValid boards_only_batch) \<noteq> Return None"
proof -
  have h1: "BoardIDs boards_only_patch \<noteq> []"
    and h2: "length (BoardIDs boards_only_patch) = length (BoardPatches boards_only_patch)"
    and h3: "BlockIDs boards_only_patch = []"
    and h4: "BlockPatches boards_only_patch = []"
    and h5: "Blocks boards_only_batch = []"
    by (simp_all add: boards_only_patch_def boards_only_batch_def)
  from PatchBoardsAndBlocks_IsValid_boards_only [OF h1 h2 h3 h4] h5
  have "fst (PatchBoardsAndBlocks_IsValid boards_only_patch) = None"
    and "fst (BoardsAndBlocks_IsValid boards_only_batch) \<noteq> Return None"
    by blast+
  with h1 h2 h3 h4 h5 show ?thesis by simp
qed

section \<open>Properties of the block type parser\<close>

text \<open>
  C9. When the lowered string is none of the nine names, the parser returns
  \<^verbatim>\<open>TypeUnknown\<close> with the error \<^verbatim>\<open>ErrInvalidBlockType{s}\<close>, held by value, and
  \<^verbatim>\<open>IsErrInvalidBlockType\<close>, which looks for the pointer type, answers false on it.
\<close>

theorem BlockTypeFromString_invalid:
  assumes "ToLower s \<notin> recognized"
  shows "BlockTypeFromString ToLower s = (TypeUnknown, Some (ErrInvalidBlockType s))
       \<and> \<not> IsErrInvalidBlockType (snd (BlockTypeFromString ToLower s))"
proof -
  from assms have "BlockTypeFromString ToLower s = (TypeUnknown, Some (ErrInvalidBlockType s))"
    by (simp add: BlockTypeFromString_def recognized_def Let_def)
  then show ?thesis by (simp add: IsErrInvalidBlockType_def)
qed

lemma ToLower_ASCII_Banana: "ToLower_ASCII ''Banana'' = ''banana''"
  by code_simp

theorem BlockTypeFromString_invalid_witness:
  "ToLower_ASCII ''Banana'' \<notin> recognized
   \<and> BlockTypeFromString ToLower_ASCII ''Banana'' = (''unknown'', Some (ErrInvalidBlockType ''Banana''))
   \<and> \<not> IsErrInvalidBlockType (snd (BlockTypeFromString ToLower_ASCII ''Banana''))"
proof -
  have h: "ToLower_ASCII ''Banana'' \<notin> recognized"
    unfolding ToLower_ASCII_Banana by (simp add: recognized_def)
  note w = BlockTypeFromString_invalid [of ToLower_ASCII "''Banana''", OF h]
  from w have a: "BlockTypeFromString ToLower_ASCII ''Banana'' =
      (''unknown'', Some (ErrInvalidBlockType ''Banana''))"
    unfolding TypeUnknown_def by (rule conjunct1)
  from w have b: "\<not> IsErrInvalidBlockType (snd (BlockTypeFromString ToLower_ASCII ''Banana''))"
    by (rule conjunct2)
  from h a b show ?thesis by (intro conjI)
qed

section \<open>Properties of the response builders\<close>

text \<open>
  C10. \<^verbatim>\<open>BuildErrorResponse(nil, e)\<close> has status code 0, an allocated empty header map
  and the error \<open>e\<close>; for a response \<open>r\<close>, \<^verbatim>\<open>BuildErrorResponse(r, e)\<close> has the status
  code and the header map of \<open>r\<close>, and the error \<open>e\<close>.
\<close>

theorem BuildErrorResponse_fields:
  "Response.StatusCode (BuildErrorResponse None e) = 0
 \<and> Response.Header (BuildErrorResponse None e) = Some Map.empty
 \<and> Response.Error (BuildErrorResponse None e) = e
 \<and> Response.StatusCode (BuildErrorResponse (Some r) e) = http_Response.StatusCode r
 \<and> Response.Header (BuildErrorResponse (Some r) e) = http_Response.Header r
 \<and> Response.Error (BuildErrorResponse (Some r) e) = e"
  by (simp add: BuildErrorResponse_def)

section \<open>Properties of the transport\<close>

lemma doAPIRequestReader_built:
  "NewRequest lib method url data = Inr rq0 \<Longrightarrow>
   doAPIRequestReader lib c method url data etag opts =
     (classify (HTTPClient c (set_Authorization lib c (set_HTTPHeader lib c (apply_opts opts rq0)))),
      [set_Authorization lib c (set_HTTPHeader lib c (apply_opts opts rq0))])"
  by (simp add: doAPIRequestReader_def Let_def)

lemma doAPIRequestReader_answer:
  assumes "snd (doAPIRequestReader lib c method url data etag opts) = [rq]"
  shows "fst (doAPIRequestReader lib c method url data etag opts) = classify (HTTPClient c rq)"
proof (cases "NewRequest lib method url data")
  case (Inl err)
  with assms show ?thesis by (simp add: doAPIRequestReader_def)
next
  case (Inr rq0)
  from assms show ?thesis
    unfolding doAPIRequestReader_built [OF Inr] by simp
qed

lemma fold_Set_other:
  "key \<notin> CanonicalMIMEHeaderKey lib ` fst ` set entries \<Longrightarrow>
   http_Request.Header (fold (\<lambda>(k, v) r. Request_Header_Set lib k v r) entries rq) key =
     http_Request.Header rq key"
proof (induction entries arbitrary: rq)
  case Nil
  then show ?case by simp
next
  case (Cons e entries)
  obtain k v where e: "e = (k, v)" by (cases e)
  from Cons.prems e have k: "key \<noteq> CanonicalMIMEHeaderKey lib k"
    and rest: "key \<notin> CanonicalMIMEHeaderKey lib ` fst ` set entries"
    by auto
  from Cons.IH [OF rest, of "Request_Header_Set lib k v rq"] k e show ?case
    by (simp add: Request_Header_Set_def Header_Set_def)
qed

lemma fold_Set_last:
  "key \<in> CanonicalMIMEHeaderKey lib ` fst ` set entries \<Longrightarrow>
   http_Request.Header (fold (\<lambda>(k, v) r. Request_Header_Set lib k v r) entries rq) key =
     Some [snd (last (filter (\<lambda>e. CanonicalMIMEHeaderKey lib (fst e) = key) entries))]"
proof (induction entries arbitrary: rq)
  case Nil
  then show ?case by simp
next
  case (Cons e entries)
  obtain k v where e: "e = (k, v)" by (cases e)
  show ?case
  proof (cases "key \<in> CanonicalMIMEHeaderKey lib ` fst ` set entries")
    case True
    then have "filter (\<lambda>e. CanonicalMIMEHeaderKey lib (fst e) = key) entries \<noteq> []"
      by (auto simp: filter_empty_conv)
    with Cons.IH [OF True, of "Request_Header_Set lib k v rq"] e show ?thesis by simp
  next
    case False
    with Cons.prems e have k: "CanonicalMIMEHeaderKey lib k = key" by auto
    from False have "filter (\<lambda>e. CanonicalMIMEHeaderKey lib (fst e) = key) entries = []"
      by (auto simp: filter_empty_conv)
    with fold_Set_other [OF False, of "Request_Header_Set lib k v rq"] e k show ?thesis
      by (simp add: Request_Header_Set_def Header_Set_def)
  qed
qed

lemma set_HTTPHeader_last:
  assumes "HTTPHeader c = Some entries"
    and "key \<in> CanonicalMIMEHeaderKey lib ` fst ` set entries"
  shows "http_Request.Header (set_HTTPHeader lib c rq) key =
     Some [snd (last (filter (\<lambda>e. CanonicalMIMEHeaderKey lib (fst e) = key) entries))]"
proof -
  from assms(2) have "entries \<noteq> []" by auto
  with assms(1) fold_Set_last [OF assms(2)] show ?thesis
    by (simp add: set_HTTPHeader_def)
qed

lemma set_HTTPHeader_other:
  assumes "\<forall>entries. HTTPHeader c = Some entries \<longrightarrow> key \<notin> CanonicalMIMEHeaderKey lib ` fst ` set entries"
  shows "http_Request.Header (set_HTTPHeader lib c rq) key = http_Request.Header rq key"
proof (cases "HTTPHeader c")
  case None
  then show ?thesis by (simp add: set_HTTPHeader_def)
next
  case (Some entries)
  with assms have "key \<notin> CanonicalMIMEHeaderKey lib ` fst ` set entries" by simp
  from fold_Set_other [OF this] Some show ?thesis
    by (simp add: set_HTTPHeader_def)
qed

lemma set_Authorization_token:
  "Token c \<noteq> '''' \<Longrightarrow>
   http_Request.Header (set_Authorization lib c rq) (CanonicalMIMEHeaderKey lib ''Authorization'') =
     Some [''Bearer '' @ Token c]"
  by (simp add: set_Authorization_def Request_Header_Set_def Header_Set_def)

lemma set_Authorization_other:
  "Token c = '''' \<or> key \<noteq> CanonicalMIMEHeaderKey lib ''Authorization'' \<Longrightarrow>
   http_Request.Header (set_Authorization lib c rq) key = http_Request.Header rq key"
  by (auto simp: set_Authorization_def Request_Header_Set_def Header_Set_def)

text \<open>
  C3, as the code has it. The transport runs the caller's request options first, then
  sets every entry of the client's \<^verbatim>\<open>HTTPHeader\<close> (the identification header
  \<^verbatim>\<open>X-Requested-With\<close> of \<^verbatim>\<open>NewClient\<close>), and last, when the token is not empty, sets
  \<^verbatim>\<open>Authorization: Bearer <token>\<close>. Each of them is a \<^verbatim>\<open>Set\<close>, so in the request handed
  to \<^verbatim>\<open>Do\<close> the bearer token stands whatever the options and the client's entries did;
  under every other canonical key of a client entry stands the value of the entry with
  that canonical key that the loop reached last, whatever the options did; and a header
  of an option survives only under a key that is neither.
\<close>

theorem doAPIRequestReader_defaults_set_last:
  assumes "NewRequest lib method url data = Inr rq0"
  shows "(Token c \<noteq> '''' \<longrightarrow>
            sent_header (doAPIRequestReader lib c method url data etag opts)
              (CanonicalMIMEHeaderKey lib ''Authorization'') = [Some [''Bearer '' @ Token c]])
       \<and> (\<forall>entries key.
            HTTPHeader c = Some entries \<and>
            key \<in> CanonicalMIMEHeaderKey lib ` fst ` set entries \<and>
            (Token c = '''' \<or> key \<noteq> CanonicalMIMEHeaderKey lib ''Authorization'')
            \<longrightarrow> sent_header (doAPIRequestReader lib c method url data etag opts) key =
                  [Some [snd (last (filter (\<lambda>e. CanonicalMIMEHeaderKey lib (fst e) = key)
                                      entries))]])
       \<and> (\<forall>key.
            (\<forall>entries. HTTPHeader c = Some entries
               \<longrightarrow> key \<notin> CanonicalMIMEHeaderKey lib ` fst ` set entries) \<and>
            (Token c = '''' \<or> key \<noteq> CanonicalMIMEHeaderKey lib ''Authorization'')
            \<longrightarrow> sent_header (doAPIRequestReader lib c method url data etag opts) key =
                  [http_Request.Header (apply_opts opts rq0) key])"
proof -
  note b = doAPIRequestReader_built [OF assms]
  have 1: "Token c \<noteq> '''' \<longrightarrow>
            sent_header (doAPIRequestReader lib c method url data etag opts)
              (CanonicalMIMEHeaderKey lib ''Authorization'') = [Some [''Bearer '' @ Token c]]"
    by (simp add: sent_header_def b set_Authorization_token)
  have 2: "sent_header (doAPIRequestReader lib c method url data etag opts) key =
             [Some [snd (last (filter (\<lambda>e. CanonicalMIMEHeaderKey lib (fst e) = key) entries))]]"
    if "HTTPHeader c = Some entries"
      and "key \<in> CanonicalMIMEHeaderKey lib ` fst ` set entries"
      and "Token c = '''' \<or> key \<noteq> CanonicalMIMEHeaderKey lib ''Authorization''"
    for entries key
    using set_Authorization_other [OF that(3)] set_HTTPHeader_last [OF that(1,2)]
    by (simp add: sent_header_def b)
  have 3: "sent_header (doAPIRequestReader lib c method url data etag opts) key =
             [http_Request.Header (apply_opts opts rq0) key]"
    if "\<forall>entries. HTTPHeader c = Some entries
          \<longrightarrow> key \<notin> CanonicalMIMEHeaderKey lib ` fst ` set entries"
      and "Token c = '''' \<or> key \<noteq> CanonicalMIMEHeaderKey lib ''Authorization''"
    for key
    using set_Authorization_other [OF that(2)] set_HTTPHeader_other [OF that(1)]
    by (simp add: sent_header_def b)
  from 1 2 3 show ?thesis by blast
qed

lemma overriding_call_NewRequest:
  "NewRequest plain_http ''POST'' ''http://host/api/v2/boards'' ''{}'' =
     Inr \<lparr>Method = ''POST'', http_Request.URL = ''http://host/api/v2/boards'',
          Header = Map.empty, Body = ''{}''\<rparr>"
  by (simp add: plain_http_def)

theorem doAPIRequestReader_defaults_set_last_witness:
  "sent_header overriding_call ''Authorization'' = [Some [''Bearer tok'']]
 \<and> sent_header overriding_call ''X-Requested-With'' = [Some [''XMLHttpRequest'']]
 \<and> sent_header overriding_call ''Content-Type'' = [Some [''application/json'']]"
proof -
  note t = doAPIRequestReader_defaults_set_last [OF overriding_call_NewRequest,
      of overriding_client "''''" overriding_opts]
  have c: "CanonicalMIMEHeaderKey plain_http = (\<lambda>key. key)" by (simp add: plain_http_def)
  have tok: "Token overriding_client = ''tok''"
    and hdr: "HTTPHeader overriding_client = Some [(''X-Requested-With'', ''XMLHttpRequest'')]"
    by (simp_all add: overriding_client_def NewClient_def Let_def)
  from t have a: "sent_header overriding_call ''Authorization'' = [Some [''Bearer tok'']]"
    unfolding c tok overriding_call_def by simp
  from t have "HTTPHeader overriding_client = Some [(''X-Requested-With'', ''XMLHttpRequest'')] \<and>
      ''X-Requested-With'' \<in> (\<lambda>key. key) ` fst ` set [(''X-Requested-With'', ''XMLHttpRequest'')] \<and>
      (Token overriding_client = '''' \<or> ''X-Requested-With'' \<noteq> ''Authorization'')
      \<longrightarrow> sent_header overriding_call ''X-Requested-With'' =
            [Some [snd (last (filter (\<lambda>e. fst e = ''X-Requested-With'')
                                [(''X-Requested-With'', ''XMLHttpRequest'')]))]]"
    unfolding c overriding_call_def by blast
  with hdr have b: "sent_header overriding_call ''X-Requested-With'' = [Some [''XMLHttpRequest'']]"
    by simp
  from t have "(\<forall>entries. HTTPHeader overriding_client = Some entries
         \<longrightarrow> ''Content-Type'' \<notin> (\<lambda>key. key) ` fst ` set entries) \<and>
      (Token overriding_client = '''' \<or> ''Content-Type'' \<noteq> ''Authorization'')
      \<longrightarrow> sent_header overriding_call ''Content-Type'' =
            [http_Request.Header (apply_opts overriding_opts
               \<lparr>Method = ''POST'', http_Request.URL = ''http://host/api/v2/boards'',
                Header = Map.empty, Body = ''{}''\<rparr>) ''Content-Type'']"
    unfolding c overriding_call_def by blast
  with hdr have d: "sent_header overriding_call ''Content-Type'' = [Some [''application/json'']]"
    by (simp add: apply_opts_def overriding_opts_def with_header_def Request_Header_Set_def
        Header_Set_def plain_http_def)
  from a b d show ?thesis by simp
qed

text \<open>
  The claim as the spec words it fails: a caller whose options set \<^verbatim>\<open>Authorization\<close> and
  \<^verbatim>\<open>X-Requested-With\<close> finds neither in the request that is sent; the defaults, set
  after the options, have replaced both.
\<close>

theorem caller_headers_do_not_override:
  "sent_header overriding_call ''Authorization'' = [Some [''Bearer tok'']]
 \<and> sent_header overriding_call ''Authorization'' \<noteq> [Some [''Basic abc'']]
 \<and> sent_header overriding_call ''X-Requested-With'' = [Some [''XMLHttpRequest'']]
 \<and> sent_header overriding_call ''X-Requested-With'' \<noteq> [Some [''mine'']]"
  by (simp add: sent_header_def overriding_call_def doAPIRequestReader_def plain_http_def
      overriding_client_def NewClient_def Let_def overriding_opts_def apply_opts_def
      with_header_def set_HTTPHeader_def set_Authorization_def Request_Header_Set_def
      Header_Set_def)

lemma call_on_sent: "snd (call_on do) = [call_on_request]"
  by (simp add: call_on_def DoAPIRequest_def doAPIRequestReader_def plain_http_def NewClient_def
      Let_def apply_opts_def set_HTTPHeader_def set_Authorization_def Request_Header_Set_def
      Header_Set_def call_on_request_def)

lemma call_on_client: "HTTPClient (NewClient do url token) = do"
  by (simp add: NewClient_def Let_def)

text \<open>
  C4, as the code has it. For a response with a status of 300 or more other than 304
  and a body, the transport reads the body to its end, and the deferred \<^verbatim>\<open>closeBody\<close>
  leaves it consumed and closed. When the read ends without error the call returns the
  response, with its status code and headers, and \<^verbatim>\<open>RequestReaderError\<close> holding exactly
  the bytes of the body. When the read fails the call returns the response and an error
  that names the status code and wraps the cause, and the bytes read are dropped.
\<close>

theorem doAPIRequestReader_status_300_up:
  assumes "snd (doAPIRequestReader lib c method url data etag opts) = [rq]"
    and "HTTPClient c rq = (Some r, None)"
    and "http_Response.StatusCode r \<ge> 300" and "http_Response.StatusCode r \<noteq> 304"
    and "http_Response.Body r = Some body"
  shows "(failure body = None \<longrightarrow>
            fst (doAPIRequestReader lib c method url data etag opts) =
              Return (Some (r\<lparr>http_Response.Body := Some (body\<lparr>pending := [], closed := True\<rparr>)\<rparr>),
                      Some (RequestReaderError (pending body))))
       \<and> (\<forall>e. failure body = Some e \<longrightarrow>
            fst (doAPIRequestReader lib c method url data etag opts) =
              Return (Some (r\<lparr>http_Response.Body := Some (body\<lparr>pending := [], closed := True\<rparr>)\<rparr>),
                      Some (ErrorfParsingResponse (http_Response.StatusCode r) e)))"
  unfolding doAPIRequestReader_answer [OF assms(1)] assms(2)
  using assms(3,4,5) by (simp add: classify_def io_ReadAll_def closeBody_def Let_def)

theorem doAPIRequestReader_status_300_up_witness:
  "returned_error boom_call = Return (Some (RequestReaderError ''boom''))
 \<and> returned_status boom_call = Return (Some 500)
 \<and> returned_body boom_call = Return (Some \<lparr>pending = [], failure = None, closed = True\<rparr>)
 \<and> returned_error broken_call =
     Return (Some (ErrorfParsingResponse 500 (ExternalError ''unexpected EOF'')))"
proof -
  have boom: "fst boom_call =
      Return (Some \<lparr>http_Response.StatusCode = 500, Header = Some Map.empty,
                     Body = Some \<lparr>pending = [], failure = None, closed = True\<rparr>\<rparr>,
              Some (RequestReaderError ''boom''))"
    using doAPIRequestReader_status_300_up [of plain_http
        "NewClient (backend 500 (whole_body ''boom'')) ''http://host'' ''tok''"
        "''GET''" "''http://host/api/v2/boards''" "''''" "''''" "[]" call_on_request
        "\<lparr>http_Response.StatusCode = 500, Header = Some Map.empty,
          Body = Some (whole_body ''boom'')\<rparr>" "whole_body ''boom''"]
      call_on_sent [of "backend 500 (whole_body ''boom'')"]
    by (simp add: boom_call_def call_on_def DoAPIRequest_def call_on_client backend_def
        whole_body_def)
  have broken: "fst broken_call =
      Return (Some \<lparr>http_Response.StatusCode = 500, Header = Some Map.empty,
                     Body = Some \<lparr>pending = [], failure = Some (ExternalError ''unexpected EOF''),
                                  closed = True\<rparr>\<rparr>,
              Some (ErrorfParsingResponse 500 (ExternalError ''unexpected EOF'')))"
    using doAPIRequestReader_status_300_up [of plain_http
        "NewClient (backend 500 (broken_body ''bo'')) ''http://host'' ''tok''"
        "''GET''" "''http://host/api/v2/boards''" "''''" "''''" "[]" call_on_request
        "\<lparr>http_Response.StatusCode = 500, Header = Some Map.empty,
          Body = Some (broken_body ''bo'')\<rparr>" "broken_body ''bo''"]
      call_on_sent [of "backend 500 (broken_body ''bo'')"]
    by (simp add: broken_call_def call_on_def DoAPIRequest_def call_on_client backend_def
        broken_body_def)
  show ?thesis
    by (simp add: returned_error_def returned_status_def returned_body_def boom broken)
qed

text \<open>
  The claim as the spec words it fails on a response whose body cannot be read to its
  end: status 500, the connection dropping after \<open>bo\<close>. The error returned is the one
  made by \<^verbatim>\<open>fmt.Errorf\<close>, not a \<^verbatim>\<open>RequestReaderError\<close>, and no byte of the body is in it.
\<close>

theorem failed_read_is_not_RequestReaderError:
  "returned_error broken_call =
     Return (Some (ErrorfParsingResponse 500 (ExternalError ''unexpected EOF'')))
 \<and> returned_error broken_call \<noteq> Return (Some (RequestReaderError ''bo''))
 \<and> returned_status broken_call = Return (Some 500)"
  by (simp add: returned_error_def returned_status_def broken_call_def call_on_def
      DoAPIRequest_def doAPIRequestReader_def plain_http_def NewClient_def Let_def
      backend_def broken_body_def classify_def io_ReadAll_def closeBody_def)

text \<open>
  C5. When \<^verbatim>\<open>Do\<close> answers with a response of status 304 and no error, the call returns
  that response, as it is, with a nil error: the body is neither read nor closed.
\<close>

theorem doAPIRequestReader_not_modified:
  assumes "snd (doAPIRequestReader lib c method url data etag opts) = [rq]"
    and "HTTPClient c rq = (Some r, None)"
    and "http_Response.StatusCode r = 304"
  shows "fst (doAPIRequestReader lib c method url data etag opts) = Return (Some r, None)"
  unfolding doAPIRequestReader_answer [OF assms(1)] assms(2)
  using assms(3) by (simp add: classify_def)

theorem doAPIRequestReader_not_modified_witness:
  "returned_error not_modified_call = Return None
 \<and> returned_status not_modified_call = Return (Some 304)
 \<and> returned_body not_modified_call = Return (Some \<lparr>pending = [], failure = None, closed = False\<rparr>)"
proof -
  have "fst not_modified_call =
      Return (Some \<lparr>http_Response.StatusCode = 304, Header = Some Map.empty,
                     Body = Some (whole_body '''')\<rparr>, None)"
    using doAPIRequestReader_not_modified [of plain_http
        "NewClient (backend 304 (whole_body '''')) ''http://host'' ''tok''"
        "''GET''" "''http://host/api/v2/boards''" "''''" "''''" "[]" call_on_request
        "\<lparr>http_Response.StatusCode = 304, Header = Some Map.empty,
          Body = Some (whole_body '''')\<rparr>"]
      call_on_sent [of "backend 304 (whole_body '''')"]
    by (simp add: not_modified_call_def call_on_def DoAPIRequest_def call_on_client backend_def)
  then show ?thesis
    by (simp add: returned_error_def returned_status_def returned_body_def whole_body_def)
qed

text \<open>
  C6. When \<^verbatim>\<open>Do\<close> answers with an error, or with a nil response, the call returns a nil
  response and the error \<^verbatim>\<open>Do\<close> gave.
\<close>

theorem doAPIRequestReader_transport_failure:
  assumes "snd (doAPIRequestReader lib c method url data etag opts) = [rq]"
    and "HTTPClient c rq = (rp, err)"
    and "err \<noteq> None \<or> rp = None"
  shows "fst (doAPIRequestReader lib c method url data etag opts) = Return (None, err)"
  unfolding doAPIRequestReader_answer [OF assms(1)] assms(2)
  using assms(3) by (auto simp: classify_def)

theorem doAPIRequestReader_transport_failure_witness:
  "fst refused_call = Return (None, Some (ExternalError ''connection refused''))"
  using doAPIRequestReader_transport_failure [of plain_http
      "NewClient refusing ''http://host'' ''tok''"
      "''GET''" "''http://host/api/v2/boards''" "''''" "''''" "[]" call_on_request
      None "Some (ExternalError ''connection refused'')"]
    call_on_sent [of refusing]
  by (simp add: refused_call_def call_on_def DoAPIRequest_def call_on_client refusing_def)

end
